theory Spec2Isabelle
  imports Complex_Main "HOL-Library.Multiset" "HOL-Library.Log_Nat"
begin

section \<open>Numbers and arrays\<close>

text \<open>
  The TypeScript sources compute with \<open>number\<close>, the IEEE 754 binary64 format. A finite
  number is a \<^typ>\<open>real\<close>; an \<open>xnum\<close> is a number that may also be an infinity or NaN.
  Where the source tests \<open>isNaN\<close> on an array element, the element is a
  \<^typ>\<open>real option\<close> and \<open>None\<close> is NaN.

  The arithmetic of the divergence detector, of the correlation and of the treemap
  layout is binary64 arithmetic: every operation returns the exact result rounded to the
  nearest number of the format, ties to even, with overflow to an infinity and gradual
  underflow (\<open>fl\<close> below). Comparisons are exact. The sign of zero is not modelled: a
  zero divisor counts as \<open>+0\<close>. The candlestick detector is kept in exact arithmetic;
  what is proved of it concerns the indices and the number of its matches.
\<close>

datatype xnum = Fin real | PosInf | NegInf | NaN

definition pow2 :: "int \<Rightarrow> real" where
  "pow2 e = (if e \<ge> 0 then 2 ^ nat e else 1 / 2 ^ nat (- e))"

definition ilog2 :: "real \<Rightarrow> int" where
  \<comment> \<open>for \<open>x > 0\<close>: the exponent \<open>e\<close> with \<open>2 ^ e \<le> x < 2 ^ (e + 1)\<close>\<close>
  "ilog2 x = (if x \<ge> 1 then bitlen \<lfloor>x\<rfloor> - 1 else - bitlen (\<lceil>1 / x\<rceil> - 1))"

definition roundEven :: "real \<Rightarrow> int" where
  \<comment> \<open>the nearest integer, a tie going to the even one\<close>
  "roundEven r =
     (let f = \<lfloor>r\<rfloor>; d = r - of_int f
      in if d < 1 / 2 then f else if d > 1 / 2 then f + 1
         else if even f then f else f + 1)"

definition fl :: "real \<Rightarrow> xnum" where
  \<comment> \<open>rounding to binary64: 53 significant bits, exponents from \<open>-1022\<close> to 1023,
      subnormal numbers in steps of \<open>2 ^ -1074\<close>\<close>
  "fl x =
     (if x = 0 then Fin 0
      else
        let e = max (ilog2 \<bar>x\<bar>) (- 1022);
            quantum = pow2 (e - 52);
            r = of_int (roundEven (\<bar>x\<bar> / quantum)) * quantum
        in if r \<ge> pow2 1024 then (if x > 0 then PosInf else NegInf)
           else Fin (if x > 0 then r else - r))"

fun dneg :: "xnum \<Rightarrow> xnum" where
  "dneg (Fin a) = Fin (- a)"
| "dneg PosInf = NegInf"
| "dneg NegInf = PosInf"
| "dneg NaN = NaN"

fun dadd :: "xnum \<Rightarrow> xnum \<Rightarrow> xnum" where
  "dadd (Fin a) (Fin b) = fl (a + b)"
| "dadd NaN _ = NaN"
| "dadd _ NaN = NaN"
| "dadd PosInf NegInf = NaN"
| "dadd NegInf PosInf = NaN"
| "dadd PosInf _ = PosInf"
| "dadd _ PosInf = PosInf"
| "dadd NegInf _ = NegInf"
| "dadd _ NegInf = NegInf"

definition dsub :: "xnum \<Rightarrow> xnum \<Rightarrow> xnum" where
  "dsub a b = dadd a (dneg b)"

fun negative :: "xnum \<Rightarrow> bool" where
  "negative (Fin a) \<longleftrightarrow> a < 0"
| "negative NegInf \<longleftrightarrow> True"
| "negative _ \<longleftrightarrow> False"

definition infinity :: "bool \<Rightarrow> xnum" where
  \<comment> \<open>the infinity of the given sign\<close>
  "infinity neg = (if neg then NegInf else PosInf)"

fun dmul :: "xnum \<Rightarrow> xnum \<Rightarrow> xnum" where
  "dmul (Fin a) (Fin b) = fl (a * b)"
| "dmul NaN _ = NaN"
| "dmul _ NaN = NaN"
| "dmul (Fin a) b = (if a = 0 then NaN else infinity (negative (Fin a) \<noteq> negative b))"
| "dmul a (Fin b) = (if b = 0 then NaN else infinity (negative a \<noteq> negative (Fin b)))"
| "dmul a b = infinity (negative a \<noteq> negative b)"

fun ddiv :: "xnum \<Rightarrow> xnum \<Rightarrow> xnum" where
  "ddiv (Fin a) (Fin b) =
     (if b \<noteq> 0 then fl (a / b)
      else if a > 0 then PosInf else if a < 0 then NegInf else NaN)"
| "ddiv NaN _ = NaN"
| "ddiv _ NaN = NaN"
| "ddiv (Fin a) _ = Fin 0"
| "ddiv a (Fin b) = infinity (negative a \<noteq> negative (Fin b))"
| "ddiv _ _ = NaN"

fun dsqrt :: "xnum \<Rightarrow> xnum" where
  \<comment> \<open>\<open>Math.sqrt\<close>, correctly rounded\<close>
  "dsqrt (Fin a) = (if a < 0 then NaN else fl (sqrt a))"
| "dsqrt PosInf = PosInf"
| "dsqrt NegInf = NaN"
| "dsqrt NaN = NaN"

fun dgt :: "xnum \<Rightarrow> xnum \<Rightarrow> bool" where
  \<comment> \<open>\<open>a > b\<close>; every comparison with NaN is false\<close>
  "dgt (Fin a) (Fin b) \<longleftrightarrow> a > b"
| "dgt NaN _ \<longleftrightarrow> False"
| "dgt _ NaN \<longleftrightarrow> False"
| "dgt PosInf PosInf \<longleftrightarrow> False"
| "dgt PosInf _ \<longleftrightarrow> True"
| "dgt _ PosInf \<longleftrightarrow> False"
| "dgt NegInf _ \<longleftrightarrow> False"
| "dgt _ NegInf \<longleftrightarrow> True"

definition dle :: "xnum \<Rightarrow> xnum \<Rightarrow> bool" where
  \<comment> \<open>\<open>a <= b\<close>\<close>
  "dle a b \<longleftrightarrow> a \<noteq> NaN \<and> b \<noteq> NaN \<and> \<not> dgt a b"

definition slice_from :: "'a list \<Rightarrow> int \<Rightarrow> 'a list" where
  \<comment> \<open>\<open>xs.slice(start)\<close>: a negative start counts from the end; the start is clamped.\<close>
  "slice_from xs start =
     (let len = int (length xs);
          k = (if start < 0 then max (len + start) 0 else min start len)
      in drop (nat k) xs)"

section \<open>Candlestick pattern detector (src/utils/candlePatterns.ts)\<close>

record OHLCV =
  time :: int
  opn :: real
  high :: real
  low :: real
  close :: real
  volume :: real

datatype PatternType = bullish | bearish | neutral

datatype Reliability = high_rel | medium_rel | low_rel

record CandlePattern =
  name :: string
  ptype :: PatternType
  description :: string
  index :: int
  reliability :: Reliability

definition bodySize :: "OHLCV \<Rightarrow> real" where
  "bodySize candle = \<bar>close candle - opn candle\<bar>"

definition upperWick :: "OHLCV \<Rightarrow> real" where
  "upperWick candle = high candle - max (opn candle) (close candle)"

definition lowerWick :: "OHLCV \<Rightarrow> real" where
  "lowerWick candle = min (opn candle) (close candle) - low candle"

definition isBullish :: "OHLCV \<Rightarrow> bool" where
  "isBullish candle \<longleftrightarrow> close candle > opn candle"

definition isBearish :: "OHLCV \<Rightarrow> bool" where
  "isBearish candle \<longleftrightarrow> close candle < opn candle"

definition totalRange :: "OHLCV \<Rightarrow> real" where
  "totalRange candle = high candle - low candle"

definition detectDoji :: "OHLCV \<Rightarrow> real \<Rightarrow> CandlePattern option" where
  "detectDoji candle avgBody =
     (let body = bodySize candle in
      if body < avgBody * (1/10) \<and> totalRange candle > avgBody * (1/2) then
        Some \<lparr>name = ''Doji'', ptype = neutral,
              description = ''Indecision - potential reversal'',
              index = 0, reliability = medium_rel\<rparr>
      else None)"

definition detectHammer :: "OHLCV \<Rightarrow> real \<Rightarrow> CandlePattern option" where
  "detectHammer candle avgBody =
     (let body = bodySize candle; lower = lowerWick candle; upper = upperWick candle in
      if lower > body * 2 \<and> upper < body * (1/2) \<and> body > avgBody * (3/10) then
        Some \<lparr>name = (if isBullish candle then ''Hammer'' else ''Hanging Man''),
              ptype = (if isBullish candle then bullish else bearish),
              description = (if isBullish candle then ''Bullish reversal signal''
                             else ''Bearish reversal signal''),
              index = 0, reliability = high_rel\<rparr>
      else None)"

definition detectShootingStar :: "OHLCV \<Rightarrow> real \<Rightarrow> CandlePattern option" where
  "detectShootingStar candle avgBody =
     (let body = bodySize candle; lower = lowerWick candle; upper = upperWick candle in
      if upper > body * 2 \<and> lower < body * (1/2) \<and> body > avgBody * (3/10) then
        Some \<lparr>name = (if isBearish candle then ''Shooting Star'' else ''Inverted Hammer''),
              ptype = (if isBearish candle then bearish else bullish),
              description = (if isBearish candle then ''Bearish reversal signal''
                             else ''Potential bullish reversal''),
              index = 0, reliability = high_rel\<rparr>
      else None)"

definition detectMarubozu :: "OHLCV \<Rightarrow> real \<Rightarrow> CandlePattern option" where
  "detectMarubozu candle avgBody =
     (let body = bodySize candle; upper = upperWick candle; lower = lowerWick candle in
      if body > avgBody * (3/2) \<and> upper < body * (5/100) \<and> lower < body * (5/100) then
        Some \<lparr>name = (if isBullish candle then ''Bullish Marubozu''
                      else ''Bearish Marubozu''),
              ptype = (if isBullish candle then bullish else bearish),
              description = ''Strong momentum continuation'',
              index = 0, reliability = high_rel\<rparr>
      else None)"

definition detectEngulfing ::
  "OHLCV \<Rightarrow> OHLCV \<Rightarrow> real \<Rightarrow> CandlePattern option" where
  \<comment> \<open>the parameter \<open>curr\<close> of the source is \<open>cur\<close> here\<close>
  "detectEngulfing prev cur avgBody =
     (let prevBody = bodySize prev; currBody = bodySize cur in
      if isBearish prev \<and> isBullish cur \<and> currBody > prevBody * (12/10) \<and>
         opn cur < close prev \<and> close cur > opn prev then
        Some \<lparr>name = ''Bullish Engulfing'', ptype = bullish,
              description = ''Strong bullish reversal pattern'',
              index = 0, reliability = high_rel\<rparr>
      else if isBullish prev \<and> isBearish cur \<and> currBody > prevBody * (12/10) \<and>
         opn cur > close prev \<and> close cur < opn prev then
        Some \<lparr>name = ''Bearish Engulfing'', ptype = bearish,
              description = ''Strong bearish reversal pattern'',
              index = 0, reliability = high_rel\<rparr>
      else None)"

definition detectPiercing :: "OHLCV \<Rightarrow> OHLCV \<Rightarrow> CandlePattern option" where
  "detectPiercing prev cur =
     (if isBearish prev \<and> isBullish cur \<and> opn cur < low prev \<and>
         close cur > (opn prev + close prev) / 2 \<and> close cur < opn prev then
        Some \<lparr>name = ''Piercing Line'', ptype = bullish,
              description = ''Bullish reversal - closes above midpoint'',
              index = 0, reliability = medium_rel\<rparr>
      else None)"

definition detectDarkCloud :: "OHLCV \<Rightarrow> OHLCV \<Rightarrow> CandlePattern option" where
  "detectDarkCloud prev cur =
     (if isBullish prev \<and> isBearish cur \<and> opn cur > high prev \<and>
         close cur < (opn prev + close prev) / 2 \<and> close cur > opn prev then
        Some \<lparr>name = ''Dark Cloud Cover'', ptype = bearish,
              description = ''Bearish reversal - closes below midpoint'',
              index = 0, reliability = medium_rel\<rparr>
      else None)"

definition detectMorningStar ::
  "OHLCV list \<Rightarrow> nat \<Rightarrow> real \<Rightarrow> CandlePattern option" where
  "detectMorningStar data idx avgBody =
     (if idx < 2 then None else
      let first = data ! (idx - 2); second = data ! (idx - 1); third = data ! idx in
      if isBearish first \<and> bodySize first > avgBody \<and>
         bodySize second < avgBody * (3/10) \<and>
         isBullish third \<and> bodySize third > avgBody \<and>
         close third > (opn first + close first) / 2 then
        Some \<lparr>name = ''Morning Star'', ptype = bullish,
              description = ''Strong bullish reversal (3-candle)'',
              index = 0, reliability = high_rel\<rparr>
      else None)"

definition detectEveningStar ::
  "OHLCV list \<Rightarrow> nat \<Rightarrow> real \<Rightarrow> CandlePattern option" where
  "detectEveningStar data idx avgBody =
     (if idx < 2 then None else
      let first = data ! (idx - 2); second = data ! (idx - 1); third = data ! idx in
      if isBullish first \<and> bodySize first > avgBody \<and>
         bodySize second < avgBody * (3/10) \<and>
         isBearish third \<and> bodySize third > avgBody \<and>
         close third < (opn first + close first) / 2 then
        Some \<lparr>name = ''Evening Star'', ptype = bearish,
              description = ''Strong bearish reversal (3-candle)'',
              index = 0, reliability = high_rel\<rparr>
      else None)"

definition detectThreeWhiteSoldiers ::
  "OHLCV list \<Rightarrow> nat \<Rightarrow> real \<Rightarrow> CandlePattern option" where
  "detectThreeWhiteSoldiers data idx avgBody =
     (if idx < 2 then None else
      let candles = [data ! (idx - 2), data ! (idx - 1), data ! idx] in
      if list_all (\<lambda>c. isBullish c \<and> bodySize c > avgBody * (7/10)) candles \<and>
         close (candles ! 1) > close (candles ! 0) \<and>
         close (candles ! 2) > close (candles ! 1) \<and>
         opn (candles ! 1) > opn (candles ! 0) \<and>
         opn (candles ! 2) > opn (candles ! 1) then
        Some \<lparr>name = ''Three White Soldiers'', ptype = bullish,
              description = ''Strong bullish continuation'',
              index = 0, reliability = high_rel\<rparr>
      else None)"

definition detectThreeBlackCrows ::
  "OHLCV list \<Rightarrow> nat \<Rightarrow> real \<Rightarrow> CandlePattern option" where
  "detectThreeBlackCrows data idx avgBody =
     (if idx < 2 then None else
      let candles = [data ! (idx - 2), data ! (idx - 1), data ! idx] in
      if list_all (\<lambda>c. isBearish c \<and> bodySize c > avgBody * (7/10)) candles \<and>
         close (candles ! 1) < close (candles ! 0) \<and>
         close (candles ! 2) < close (candles ! 1) \<and>
         opn (candles ! 1) < opn (candles ! 0) \<and>
         opn (candles ! 2) < opn (candles ! 1) then
        Some \<lparr>name = ''Three Black Crows'', ptype = bearish,
              description = ''Strong bearish continuation'',
              index = 0, reliability = high_rel\<rparr>
      else None)"

text \<open>
  \<open>if (p) { p.index = globalIdx; patterns.push(p); }\<close>: a found pattern is stamped with
  the index and appended.
\<close>

definition pushAt ::
  "int \<Rightarrow> CandlePattern option \<Rightarrow> CandlePattern list \<Rightarrow> CandlePattern list" where
  "pushAt globalIdx found patterns =
     (case found of None \<Rightarrow> patterns | Some p \<Rightarrow> patterns @ [p\<lparr>index := globalIdx\<rparr>])"

text \<open>One pass of the body of the scanning loop, at position \<open>i\<close> of \<open>recentData\<close>.\<close>

definition scanStep ::
  "nat \<Rightarrow> int \<Rightarrow> OHLCV list \<Rightarrow> real \<Rightarrow> CandlePattern list \<Rightarrow> nat \<Rightarrow> CandlePattern list" where
  "scanStep dataLength lookback recentData avgBody patterns i =
     (let globalIdx = int dataLength - lookback + int i;
          candle = recentData ! i;
          p1 = pushAt globalIdx (detectDoji candle avgBody) patterns;
          p2 = pushAt globalIdx (detectHammer candle avgBody) p1;
          p3 = pushAt globalIdx (detectShootingStar candle avgBody) p2;
          p4 = pushAt globalIdx (detectMarubozu candle avgBody) p3;
          p7 = (if i > 0 then
                  let prev = recentData ! (i - 1);
                      p5 = pushAt globalIdx (detectEngulfing prev candle avgBody) p4;
                      p6 = pushAt globalIdx (detectPiercing prev candle) p5
                  in pushAt globalIdx (detectDarkCloud prev candle) p6
                else p4)
      in if i \<ge> 2 then
           let p8 = pushAt globalIdx (detectMorningStar recentData i avgBody) p7;
               p9 = pushAt globalIdx (detectEveningStar recentData i avgBody) p8;
               p10 = pushAt globalIdx (detectThreeWhiteSoldiers recentData i avgBody) p9
           in pushAt globalIdx (detectThreeBlackCrows recentData i avgBody) p10
         else p7)"

text \<open>
  The list \<open>patterns\<close> as it stands when the scanning loop has finished, before the final
  \<open>slice(-10)\<close>. \<open>lookback\<close> is an integer count. When \<open>recentData\<close> is empty the
  program's \<open>avgBody\<close> is \<open>0 / 0\<close>; the loop body, its only reader, does not run then.
\<close>

definition scanPatterns :: "OHLCV list \<Rightarrow> int \<Rightarrow> CandlePattern list" where
  "scanPatterns data lookback =
     (let recentData = slice_from data (- lookback);
          avgBody = foldl (\<lambda>sum c. sum + bodySize c) 0 recentData / real (length recentData)
      in foldl (scanStep (length data) lookback recentData avgBody) []
           [0 ..< length recentData])"

definition detectCandlePatterns :: "OHLCV list \<Rightarrow> int \<Rightarrow> CandlePattern list" where
  "detectCandlePatterns data lookback =
     (if length data < 3 then [] else slice_from (scanPatterns data lookback) (- 10))"

text \<open>
  The matches of one loop pass taken alone: what \<open>pushAt\<close> appends for one detector.
\<close>

definition stamped :: "int \<Rightarrow> CandlePattern option \<Rightarrow> CandlePattern list" where
  "stamped globalIdx found = pushAt globalIdx found []"

section \<open>Divergence detector (DivergenceDetector component)\<close>

datatype PeakType = High | Low

text \<open>
  The anonymous peak object \<open>{ index, value, type }\<close> of \<open>findPeaks\<close>. A peak's value is
  never NaN, so it is a \<^typ>\<open>real\<close>.
\<close>

record Peak =
  pk_index :: nat
  pk_value :: real
  pk_type :: PeakType

text \<open>
  The inner loop of \<open>findPeaks\<close> over \<open>j = i - lookback .. i + lookback\<close>, on the flags
  \<open>(isHigh, isLow)\<close>; \<open>v\<close> is \<open>data[i]\<close>, which is not NaN here. \<open>lookback\<close> is a
  non-negative count, so every \<open>j\<close> of the window is a position of \<open>data\<close>.
\<close>

definition peakFlagStep ::
  "real option list \<Rightarrow> nat \<Rightarrow> real \<Rightarrow> bool \<times> bool \<Rightarrow> nat \<Rightarrow> bool \<times> bool" where
  "peakFlagStep data i v flags j =
     (case data ! j of
        None \<Rightarrow> flags
      | Some u \<Rightarrow>
          if j = i then flags
          else (if u \<ge> v then False else fst flags, if u \<le> v then False else snd flags))"

definition peakFlags :: "real option list \<Rightarrow> nat \<Rightarrow> nat \<Rightarrow> real \<Rightarrow> bool \<times> bool" where
  "peakFlags data lookback i v =
     foldl (peakFlagStep data i v) (True, True) [i - lookback ..< i + lookback + 1]"

definition findPeaksStep ::
  "real option list \<Rightarrow> nat \<Rightarrow> Peak list \<Rightarrow> nat \<Rightarrow> Peak list" where
  "findPeaksStep data lookback peaks i =
     (case data ! i of
        None \<Rightarrow> peaks
      | Some v \<Rightarrow>
          let flags = peakFlags data lookback i v;
              peaks1 = (if fst flags
                        then peaks @ [\<lparr>pk_index = i, pk_value = v, pk_type = High\<rparr>] else peaks)
          in if snd flags
             then peaks1 @ [\<lparr>pk_index = i, pk_value = v, pk_type = Low\<rparr>] else peaks1)"

definition findPeaks :: "real option list \<Rightarrow> nat \<Rightarrow> Peak list" where
  "findPeaks data lookback =
     foldl (findPeaksStep data lookback) [] [lookback ..< length data - lookback]"

datatype DivergenceType = div_bullish | div_bearish

datatype IndicatorName = RSI | MACD

datatype Strength = weak | moderate | strong

text \<open>
  The \<open>description\<close> field of a divergence is a sentence formatted from the other fields
  with \<open>toFixed(2)\<close>; it is left out of the record.
\<close>

record Divergence =
  dtype :: DivergenceType
  indicator :: IndicatorName
  startIndex :: nat
  endIndex :: nat
  priceStart :: real
  priceEnd :: real
  indicatorStart :: real
  indicatorEnd :: real
  strength :: Strength

definition classifyStrength :: "xnum \<Rightarrow> Strength" where
  \<comment> \<open>\<open>combinedStrength > 0.15 ? 'strong' : combinedStrength > 0.08 ? 'moderate' : 'weak'\<close>;
      the literals are the numbers of the format nearest to \<open>0.15\<close> and \<open>0.08\<close>\<close>
  "classifyStrength combinedStrength =
     (if dgt combinedStrength (fl (15/100)) then strong
      else if dgt combinedStrength (fl (8/100)) then moderate else weak)"

definition orOne :: "real \<Rightarrow> real" where
  \<comment> \<open>\<open>v || 1\<close> for a number that is not NaN\<close>
  "orOne v = (if v = 0 then 1 else v)"

definition nearPeak :: "nat \<Rightarrow> Peak \<Rightarrow> Peak \<Rightarrow> bool" where
  \<comment> \<open>\<open>Math.abs(ih.index - ph.index) <= lookback + 2\<close>\<close>
  "nearPeak lookback ph ih \<longleftrightarrow>
     \<bar>int (pk_index ih) - int (pk_index ph)\<bar> \<le> int lookback + 2"

definition bearishStep ::
  "Peak list \<Rightarrow> IndicatorName \<Rightarrow> nat \<Rightarrow> int \<Rightarrow> Peak list \<Rightarrow> Divergence list \<Rightarrow> nat
     \<Rightarrow> Divergence list" where
  "bearishStep indHighs indicatorName lookback maxDistance priceHighs divergences i =
     (let ph1 = priceHighs ! i; ph2 = priceHighs ! (i + 1) in
      if int (pk_index ph2) - int (pk_index ph1) > maxDistance then divergences
      else if pk_value ph2 \<le> pk_value ph1 then divergences
      else
        case (find (nearPeak lookback ph1) indHighs, find (nearPeak lookback ph2) indHighs) of
          (Some ih1, Some ih2) \<Rightarrow>
            if pk_value ih2 \<ge> pk_value ih1 then divergences
            else
              let priceDiff = ddiv (dsub (Fin (pk_value ph2)) (Fin (pk_value ph1)))
                                   (Fin (pk_value ph1));
                  indDiff = ddiv (dsub (Fin (pk_value ih1)) (Fin (pk_value ih2)))
                                 (Fin \<bar>orOne (pk_value ih1)\<bar>);
                  combinedStrength = dadd priceDiff indDiff
              in divergences @
                 [\<lparr>dtype = div_bearish, indicator = indicatorName,
                   startIndex = pk_index ph1, endIndex = pk_index ph2,
                   priceStart = pk_value ph1, priceEnd = pk_value ph2,
                   indicatorStart = pk_value ih1, indicatorEnd = pk_value ih2,
                   strength = classifyStrength combinedStrength\<rparr>]
        | _ \<Rightarrow> divergences)"

definition bullishStep ::
  "Peak list \<Rightarrow> IndicatorName \<Rightarrow> nat \<Rightarrow> int \<Rightarrow> Peak list \<Rightarrow> Divergence list \<Rightarrow> nat
     \<Rightarrow> Divergence list" where
  "bullishStep indLows indicatorName lookback maxDistance priceLows divergences i =
     (let pl1 = priceLows ! i; pl2 = priceLows ! (i + 1) in
      if int (pk_index pl2) - int (pk_index pl1) > maxDistance then divergences
      else if pk_value pl2 \<ge> pk_value pl1 then divergences
      else
        case (find (nearPeak lookback pl1) indLows, find (nearPeak lookback pl2) indLows) of
          (Some il1, Some il2) \<Rightarrow>
            if pk_value il2 \<le> pk_value il1 then divergences
            else
              let priceDiff = ddiv (dsub (Fin (pk_value pl1)) (Fin (pk_value pl2)))
                                   (Fin (pk_value pl1));
                  indDiff = ddiv (dsub (Fin (pk_value il2)) (Fin (pk_value il1)))
                                 (Fin \<bar>orOne (pk_value il1)\<bar>);
                  combinedStrength = dadd priceDiff indDiff
              in divergences @
                 [\<lparr>dtype = div_bullish, indicator = indicatorName,
                   startIndex = pk_index pl1, endIndex = pk_index pl2,
                   priceStart = pk_value pl1, priceEnd = pk_value pl2,
                   indicatorStart = pk_value il1, indicatorEnd = pk_value il2,
                   strength = classifyStrength combinedStrength\<rparr>]
        | _ \<Rightarrow> divergences)"

definition detectDivergences ::
  "real option list \<Rightarrow> real option list \<Rightarrow> IndicatorName \<Rightarrow> nat \<Rightarrow> int \<Rightarrow> Divergence list" where
  "detectDivergences prices indicatorValues indicatorName lookback maxDistance =
     (let pricePeaks = findPeaks prices lookback;
          indicatorPeaks = findPeaks indicatorValues lookback;
          priceHighs = filter (\<lambda>p. pk_type p = High) pricePeaks;
          priceLows = filter (\<lambda>p. pk_type p = Low) pricePeaks;
          indHighs = filter (\<lambda>p. pk_type p = High) indicatorPeaks;
          indLows = filter (\<lambda>p. pk_type p = Low) indicatorPeaks;
          bearishFound =
            foldl (bearishStep indHighs indicatorName lookback maxDistance priceHighs) []
              [0 ..< length priceHighs - 1]
      in foldl (bullishStep indLows indicatorName lookback maxDistance priceLows) bearishFound
           [0 ..< length priceLows - 1])"

text \<open>
  The \<open>divergences\<close> value of the component. \<open>RSI\<close> and \<open>MACD\<close> come from
  \<open>@/utils/indicators\<close>, which is outside the sources at hand: the two series they return
  are the parameters \<open>rsi\<close> (called with period 14) and \<open>macdHistogram\<close> (the
  \<open>histogram\<close> field of the MACD result). \<open>sort\<close> with the comparator
  \<open>b.endIndex - a.endIndex\<close> is a stable sort by descending \<open>endIndex\<close>.
\<close>

definition divergences ::
  "(real option list \<Rightarrow> nat \<Rightarrow> real option list) \<Rightarrow> (real option list \<Rightarrow> real option list)
     \<Rightarrow> OHLCV list \<Rightarrow> Divergence list" where
  "divergences rsi macdHistogram data =
     (if length data < 30 then []
      else
        let closes = map (\<lambda>d. Some (close d)) data;
            rsiValues = rsi closes 14;
            rsiDivergences = detectDivergences closes rsiValues RSI 5 25;
            macdDivergences = detectDivergences closes (macdHistogram closes) MACD 5 25
        in take 10 (sort_key (\<lambda>d. - int (endIndex d)) (rsiDivergences @ macdDivergences)))"

text \<open>
  The combined metric recomputed from the fields of a reported divergence, with the
  operations of the two loops: the rounded size of each move, divided by the first price
  and by the magnitude of \<open>indicatorStart || 1\<close>, the two rounded quotients added.
\<close>

definition combinedStrengthOf :: "Divergence \<Rightarrow> xnum" where
  "combinedStrengthOf d =
     dadd (ddiv (fl \<bar>priceEnd d - priceStart d\<bar>) (Fin (priceStart d)))
          (ddiv (fl \<bar>indicatorEnd d - indicatorStart d\<bar>) (Fin \<bar>orOne (indicatorStart d)\<bar>))"

text \<open>
  The combined metric as the specification words it: each move is a fractional change
  normalised by the magnitude of the first point.
\<close>

definition spec_combinedStrength :: "Divergence \<Rightarrow> xnum" where
  "spec_combinedStrength d =
     dadd (ddiv (fl \<bar>priceEnd d - priceStart d\<bar>) (Fin \<bar>priceStart d\<bar>))
          (ddiv (fl \<bar>indicatorEnd d - indicatorStart d\<bar>) (Fin \<bar>indicatorStart d\<bar>))"

definition spec_strength :: "Divergence \<Rightarrow> Strength" where
  "spec_strength d = classifyStrength (spec_combinedStrength d)"

section \<open>Correlation engine (CorrelationMatrix component)\<close>

definition corrStep ::
  "real list \<Rightarrow> real list \<Rightarrow> xnum \<Rightarrow> xnum \<Rightarrow> xnum \<times> xnum \<times> xnum \<Rightarrow> nat
     \<Rightarrow> xnum \<times> xnum \<times> xnum" where
  "corrStep aSlice bSlice meanA meanB acc i =
     (case acc of (numerator, denomA, denomB) \<Rightarrow>
        let da = dsub (Fin (aSlice ! i)) meanA; db = dsub (Fin (bSlice ! i)) meanB
        in (dadd numerator (dmul da db), dadd denomA (dmul da da), dadd denomB (dmul db db)))"

definition calculateCorrelation :: "real list \<Rightarrow> real list \<Rightarrow> xnum" where
  "calculateCorrelation a b =
     (let n = min (length a) (length b) in
      if n < 5 then Fin 0
      else
        let aSlice = slice_from a (- int n);
            bSlice = slice_from b (- int n);
            meanA = ddiv (foldl (\<lambda>s v. dadd s (Fin v)) (Fin 0) aSlice) (Fin (real n));
            meanB = ddiv (foldl (\<lambda>s v. dadd s (Fin v)) (Fin 0) bSlice) (Fin (real n))
        in case foldl (corrStep aSlice bSlice meanA meanB) (Fin 0, Fin 0, Fin 0) [0 ..< n] of
             (numerator, denomA, denomB) \<Rightarrow>
               let denominator = dsqrt (dmul denomA denomB)
               in if denominator = Fin 0 then Fin 0 else ddiv numerator denominator)"

section \<open>Treemap layout (MarketHeatmap component)\<close>

record TreemapItem =
  symbol :: string
  weight :: real
  change :: real
  item_name :: string
  price :: real
  marketCap :: real

text \<open>
  A placed rectangle; its fields \<open>x, y, w, h, symbol, change, name, price, marketCap\<close> carry
  the prefix \<open>r_\<close> here. The four coordinates are computed, so they may be infinite or NaN.
\<close>

record TreemapRect =
  r_x :: xnum
  r_y :: xnum
  r_w :: xnum
  r_h :: xnum
  r_symbol :: string
  r_change :: real
  r_name :: string
  r_price :: real
  r_marketCap :: real

text \<open>The layout loop from position \<open>i\<close> on, over the items still to place.\<close>

fun squarifyLoop ::
  "TreemapItem list \<Rightarrow> nat \<Rightarrow> xnum \<Rightarrow> xnum \<Rightarrow> xnum \<Rightarrow> xnum \<Rightarrow> xnum \<Rightarrow> bool
     \<Rightarrow> TreemapRect list" where
  "squarifyLoop [] i x y remainingWidth remainingHeight remainingWeight horizontal = []"
| "squarifyLoop (item # rest) i x y remainingWidth remainingHeight remainingWeight horizontal =
     (let ratio = ddiv (Fin (weight item)) remainingWeight;
          flipped = (if i mod 3 = 2 then \<not> horizontal else horizontal)
      in if horizontal then
           let w = dmul remainingWidth ratio; h = remainingHeight in
           \<lparr>r_x = x, r_y = y, r_w = w, r_h = h, r_symbol = symbol item, r_change = change item,
            r_name = item_name item, r_price = price item, r_marketCap = marketCap item\<rparr> #
           squarifyLoop rest (i + 1) (dadd x w) y (dsub remainingWidth w) remainingHeight
             (dsub remainingWeight (Fin (weight item))) flipped
         else
           let w = remainingWidth; h = dmul remainingHeight ratio in
           \<lparr>r_x = x, r_y = y, r_w = w, r_h = h, r_symbol = symbol item, r_change = change item,
            r_name = item_name item, r_price = price item, r_marketCap = marketCap item\<rparr> #
           squarifyLoop rest (i + 1) x (dadd y h) remainingWidth (dsub remainingHeight h)
             (dsub remainingWeight (Fin (weight item))) flipped)"

definition squarify :: "TreemapItem list \<Rightarrow> real \<Rightarrow> real \<Rightarrow> TreemapRect list" where
  "squarify items containerWidth containerHeight =
     (if items = [] \<or> containerWidth \<le> 0 \<or> containerHeight \<le> 0 then []
      else
        let totalWeight = foldl (\<lambda>sum item. dadd sum (Fin (weight item))) (Fin 0) items in
        if dle totalWeight (Fin 0) then []
        else squarifyLoop items 0 (Fin 0) (Fin 0) (Fin containerWidth) (Fin containerHeight)
               totalWeight (containerWidth \<ge> containerHeight))"

section \<open>Concrete series\<close>

text \<open>
  Three candles forming a Morning Star: a large bearish candle, a small-bodied candle, a
  large bullish candle closing above the midpoint of the first.
\<close>

definition morning_star_series :: "OHLCV list" where
  "morning_star_series =
     [\<lparr>time = 0, opn = 110, high = 111, low = 99, close = 100, volume = 1\<rparr>,
      \<lparr>time = 60, opn = 99, high = 100, low = 97, close = 98, volume = 1\<rparr>,
      \<lparr>time = 120, opn = 99, high = 110, low = 98, close = 109, volume = 1\<rparr>]"

text \<open>Four candles: a bullish candle followed by the same three.\<close>

definition four_candles :: "OHLCV list" where
  "four_candles =
     [\<lparr>time = 0, opn = 100, high = 112, low = 99, close = 111, volume = 1\<rparr>,
      \<lparr>time = 60, opn = 110, high = 111, low = 99, close = 100, volume = 1\<rparr>,
      \<lparr>time = 120, opn = 99, high = 100, low = 97, close = 98, volume = 1\<rparr>,
      \<lparr>time = 180, opn = 99, high = 110, low = 98, close = 109, volume = 1\<rparr>]"

text \<open>
  Thirteen rising candles without wicks: every position from 2 on ends a
  Three White Soldiers match, eleven matches in all.
\<close>

definition rising_series :: "OHLCV list" where
  "rising_series =
     [\<lparr>time = 0, opn = 100, high = 110, low = 100, close = 110, volume = 1\<rparr>,
      \<lparr>time = 60, opn = 110, high = 120, low = 110, close = 120, volume = 1\<rparr>,
      \<lparr>time = 120, opn = 120, high = 130, low = 120, close = 130, volume = 1\<rparr>,
      \<lparr>time = 180, opn = 130, high = 140, low = 130, close = 140, volume = 1\<rparr>,
      \<lparr>time = 240, opn = 140, high = 150, low = 140, close = 150, volume = 1\<rparr>,
      \<lparr>time = 300, opn = 150, high = 160, low = 150, close = 160, volume = 1\<rparr>,
      \<lparr>time = 360, opn = 160, high = 170, low = 160, close = 170, volume = 1\<rparr>,
      \<lparr>time = 420, opn = 170, high = 180, low = 170, close = 180, volume = 1\<rparr>,
      \<lparr>time = 480, opn = 180, high = 190, low = 180, close = 190, volume = 1\<rparr>,
      \<lparr>time = 540, opn = 190, high = 200, low = 190, close = 200, volume = 1\<rparr>,
      \<lparr>time = 600, opn = 200, high = 210, low = 200, close = 210, volume = 1\<rparr>,
      \<lparr>time = 660, opn = 210, high = 220, low = 210, close = 220, volume = 1\<rparr>,
      \<lparr>time = 720, opn = 220, high = 230, low = 220, close = 230, volume = 1\<rparr>]"

definition peak_series :: "real option list" where
  "peak_series = [None, Some 1, Some 3, Some 2, None, Some 0, Some 4, Some 4]"

text \<open>
  A price series with highs 100 at position 5 and 110 at position 13, and an indicator
  with highs 70 and 63 at the same positions: a higher high in price against a lower
  high in the indicator, with relative moves \<open>0.1\<close> and \<open>0.1\<close>.
\<close>

definition bearish_prices :: "real option list" where
  "bearish_prices =
     [Some 95, Some 96, Some 97, Some 98, Some 99, Some 100,
      Some 99, Some 98, Some 97, Some 96, Some 95, Some 108,
      Some 109, Some 110, Some 109, Some 108, Some 107, Some 106,
      Some 105]"

definition bearish_indicator :: "real option list" where
  "bearish_indicator =
     [Some 55, Some 58, Some 61, Some 64, Some 67, Some 70,
      Some 67, Some 64, Some 61, Some 58, Some 55, Some 61,
      Some 62, Some 63, Some 62, Some 61, Some 60, Some 59,
      Some 58]"

text \<open>
  Price highs 100 and 101 at positions 5 and 13, against an indicator whose highs there
  are exactly 0 and \<open>-1/64\<close>.
\<close>

definition flat_prices :: "real option list" where
  "flat_prices =
     [Some 95, Some 96, Some 97, Some 98, Some 99, Some 100,
      Some 99, Some 98, Some 97, Some 96, Some 95, Some 99,
      Some 100, Some 101, Some 100, Some 99, Some 98, Some 97,
      Some 96]"

definition zero_start_indicator :: "real option list" where
  "zero_start_indicator =
     [Some (- 5), Some (- 4), Some (- 3), Some (- 2), Some (- 1), Some 0,
      Some (- 1), Some (- 2), Some (- 3), Some (- 4), Some (- 5),
      Some (- (129 / 64)), Some (- (65 / 64)), Some (- (1 / 64)), Some (- (65 / 64)),
      Some (- (129 / 64)), Some (- (193 / 64)), Some (- (257 / 64)), Some (- (321 / 64))]"

text \<open>
  An indicator with highs 100 and 95 at positions 5 and 13: against the price highs 100
  and 110 of \<open>bearish_prices\<close> the relative moves are \<open>0.1\<close> and \<open>0.05\<close>.
\<close>

definition boundary_indicator :: "real option list" where
  "boundary_indicator =
     [Some 85, Some 88, Some 91, Some 94, Some 97, Some 100,
      Some 97, Some 94, Some 91, Some 88, Some 85, Some 93,
      Some 94, Some 95, Some 94, Some 93, Some 92, Some 91,
      Some 90]"

text \<open>
  Prices below zero, with highs \<open>-2\<close> and \<open>-1\<close> at positions 5 and 13.
\<close>

definition negative_prices :: "real option list" where
  "negative_prices =
     [Some (- 7), Some (- 6), Some (- 5), Some (- 4), Some (- 3), Some (- 2),
      Some (- 3), Some (- 4), Some (- 5), Some (- 6), Some (- 7), Some (- 3),
      Some (- 2), Some (- 1), Some (- 2), Some (- 3), Some (- 4), Some (- 5),
      Some (- 6)]"

text \<open>
  Thirty candles whose closes have highs 100, 110, 120 at positions 5, 14, 23, and two
  fixed oscillator series standing for the RSI and the MACD histogram of these closes:
  the first has highs 70, 60, 65 at these positions (undefined at 0 and 1), the second
  has highs 1, 3, 2.
\<close>

definition three_peak_closes :: "real option list" where
  "three_peak_closes =
     [Some 85, Some 88, Some 91, Some 94, Some 97, Some 100,
      Some 97, Some 94, Some 91, Some 88, Some 98, Some 101,
      Some 104, Some 107, Some 110, Some 107, Some 104, Some 101,
      Some 98, Some 108, Some 111, Some 114, Some 117, Some 120,
      Some 117, Some 114, Some 111, Some 108, Some 105, Some 102]"

definition thirty_candles :: "OHLCV list" where
  "thirty_candles =
     map (\<lambda>c. \<lparr>time = 0, opn = c, high = c, low = c, close = c, volume = 1\<rparr>)
       [85, 88, 91, 94, 97, 100, 97, 94, 91, 88,
       98, 101, 104, 107, 110, 107, 104, 101, 98, 108,
       111, 114, 117, 120, 117, 114, 111, 108, 105, 102]"

definition rsi_values :: "real option list \<Rightarrow> nat \<Rightarrow> real option list" where
  "rsi_values closes period =
     [None, None, Some 61, Some 64, Some 67, Some 70,
      Some 67, Some 64, Some 61, Some 58, Some 48, Some 51,
      Some 54, Some 57, Some 60, Some 57, Some 54, Some 51,
      Some 48, Some 53, Some 56, Some 59, Some 62, Some 65,
      Some 62, Some 59, Some 56, Some 53, Some 50, Some 47]"

definition macd_values :: "real option list \<Rightarrow> real option list" where
  "macd_values closes =
     [Some (- 14), Some (- 11), Some (- 8), Some (- 5), Some (- 2), Some 1,
      Some (- 2), Some (- 5), Some (- 8), Some (- 11), Some (- 9), Some (- 6),
      Some (- 3), Some 0, Some 3, Some 0, Some (- 3), Some (- 6),
      Some (- 9), Some (- 10), Some (- 7), Some (- 4), Some (- 1), Some 2,
      Some (- 1), Some (- 4), Some (- 7), Some (- 10), Some (- 13), Some (- 16)]"

text \<open>
  Six returns equal to the binary64 number nearest to \<open>0.1\<close>, and six equal to the one
  nearest to \<open>0.7\<close>.
\<close>

definition six_tenths :: "real list" where
  "six_tenths =
     [3602879701896397 / 36028797018963968, 3602879701896397 / 36028797018963968,
      3602879701896397 / 36028797018963968, 3602879701896397 / 36028797018963968,
      3602879701896397 / 36028797018963968, 3602879701896397 / 36028797018963968]"

definition six_sevenths :: "real list" where
  "six_sevenths =
     [3152519739159347 / 4503599627370496, 3152519739159347 / 4503599627370496,
      3152519739159347 / 4503599627370496, 3152519739159347 / 4503599627370496,
      3152519739159347 / 4503599627370496, 3152519739159347 / 4503599627370496]"



text \<open>
  Four items: three of weight the binary64 number nearest to \<open>0.3\<close>, and one of weight
  the binary64 number nearest to \<open>10\<^sup>-\<^sup>1\<^sup>7\<close>.
\<close>

definition small_last_items :: "TreemapItem list" where
  "small_last_items =
     [\<lparr>symbol = ''A'', weight = 5404319552844595 / 18014398509481984, change = 0,
       item_name = ''A'', price = 1, marketCap = 1\<rparr>,
      \<lparr>symbol = ''B'', weight = 5404319552844595 / 18014398509481984, change = 0,
       item_name = ''B'', price = 1, marketCap = 1\<rparr>,
      \<lparr>symbol = ''C'', weight = 5404319552844595 / 18014398509481984, change = 0,
       item_name = ''C'', price = 1, marketCap = 1\<rparr>,
      \<lparr>symbol = ''D'', weight = 6490371073168535 / 649037107316853453566312041152512,
       change = 0, item_name = ''D'', price = 1, marketCap = 1\<rparr>]"

section \<open>Rounding to binary64\<close>
















text \<open>
  Rounding is evaluated on numerals with the following rules; \<open>bitlen\<close> of a numeral is
  computed by halving.
\<close>

lemma bitlen_numeral: "bitlen (numeral n) = bitlen (numeral n div 2) + 1"
  by (subst compute_bitlen) simp

lemma bitlen_one: "bitlen 1 = 1"
  by (subst compute_bitlen) simp

lemmas fl_eval = fl_def ilog2_def roundEven_def pow2_def Let_def bitlen_numeral bitlen_one


text \<open>
  The literals \<open>0.15\<close>, \<open>0.08\<close> and \<open>0.20\<close> of the source denote the nearest numbers of
  the format.
\<close>

lemma thresholds:
  "fl (15/100) = Fin (5404319552844595 / 36028797018963968)"
  "fl (8/100) = Fin (5764607523034235 / 72057594037927936)"
  "fl (20/100) = Fin (3602879701896397 / 18014398509481984)"
  by (simp_all add: fl_eval)

text \<open>
  Some known roundings: \<open>0.1\<close>; \<open>0.1 + 0.2\<close>, which is \<open>0.30000000000000004\<close>; the tie
  \<open>10\<^sup>1\<^sup>6 + 1\<close>, which goes to the even neighbour \<open>10\<^sup>1\<^sup>6\<close>; and \<open>10\<^sup>1\<^sup>6 + 3\<close>, which goes to
  \<open>10\<^sup>1\<^sup>6 + 4\<close>.
\<close>

lemma fl_tenth: "fl (1 / 10) = Fin (3602879701896397 / 36028797018963968)"
  by (simp add: fl_eval)

lemma fl_tenth_plus_fifth:
  "dadd (fl (1 / 10)) (fl (2 / 10)) = Fin (1351079888211149 / 4503599627370496)"
  by (simp add: fl_eval)

lemma fl_tie_to_even: "fl (10 ^ 16 + 1) = Fin (10 ^ 16)"
  by (simp add: fl_eval)

lemma fl_above_tie: "fl (10 ^ 16 + 3) = Fin (10 ^ 16 + 4)"
  by (simp add: fl_eval)

section \<open>The scanning loop of the pattern detector\<close>

lemma pushAt_conv: "pushAt g found ps = ps @ stamped g found"
  by (simp add: pushAt_def stamped_def split: option.split)

lemma stamped_index: "p \<in> set (stamped g found) \<Longrightarrow> index p = g"
  by (auto simp: pushAt_def stamped_def split: option.splits)

lemma scanStep_conv:
  "scanStep n lb rd avg ps i = ps @ scanStep n lb rd avg [] i"
  by (simp add: scanStep_def Let_def pushAt_conv)

lemma scanStep_index:
  "p \<in> set (scanStep n lb rd avg [] i) \<Longrightarrow> index p = int n - lb + int i"
  by (auto simp: scanStep_def Let_def pushAt_conv dest: stamped_index split: if_splits)

lemma foldl_scanStep:
  "foldl (scanStep n lb rd avg) ps js = ps @ concat (map (scanStep n lb rd avg []) js)"
proof (induction js arbitrary: ps)
  case Nil
  show ?case by simp
next
  case (Cons j js)
  have "foldl (scanStep n lb rd avg) ps (j # js) =
        foldl (scanStep n lb rd avg) (scanStep n lb rd avg ps j) js"
    by simp
  also have "\<dots> = scanStep n lb rd avg ps j @ concat (map (scanStep n lb rd avg []) js)"
    by (rule Cons.IH)
  also have "scanStep n lb rd avg ps j = ps @ scanStep n lb rd avg [] j"
    by (rule scanStep_conv)
  finally show ?case by simp
qed

lemma sorted_const: "\<forall>x\<in>set xs. x = (k::int) \<Longrightarrow> sorted xs"
  by (induction xs) auto

lemma sorted_blocks:
  fixes f :: "nat \<Rightarrow> CandlePattern list"
  assumes blk: "\<And>i p. p \<in> set (f i) \<Longrightarrow> index p = c + int i"
  shows "sorted js \<Longrightarrow> sorted (map index (concat (map f js)))"
proof (induction js)
  case Nil
  show ?case by simp
next
  case (Cons j js)
  have rest: "sorted (map index (concat (map f js)))"
    using Cons by simp
  have here: "sorted (map index (f j))"
    by (rule sorted_const [of _ "c + int j"]) (auto dest: blk)
  have cross: "x \<le> y" if "x \<in> set (map index (f j))"
    and "y \<in> set (map index (concat (map f js)))" for x y
  proof -
    from that(1) have x: "x = c + int j" by (auto dest: blk)
    from that(2) obtain j' where j': "j' \<in> set js" and "y = c + int j'"
      by (auto dest: blk)
    moreover from Cons.prems j' have "j \<le> j'" by auto
    ultimately show ?thesis using x by simp
  qed
  show ?case
    using rest here cross by (simp add: sorted_append)
qed

lemma scanPatterns_sorted: "sorted (map index (scanPatterns data lookback))"
  unfolding scanPatterns_def Let_def foldl_scanStep append_Nil
  by (rule sorted_blocks [where c = "int (length data) - lookback"])
     (auto dest: scanStep_index)

lemma slice_last: "0 < k \<Longrightarrow> slice_from xs (- int k) = drop (length xs - k) xs"
  by (auto simp: slice_from_def Let_def max_def nat_diff_distrib'
      intro!: arg_cong [where f = "\<lambda>n. drop n xs"])

lemma detect_short: "length data < 3 \<Longrightarrow> detectCandlePatterns data lookback = []"
  by (simp add: detectCandlePatterns_def)

text \<open>
  When the lookback is positive and no longer than the series, the scanned window is
  exactly the last \<open>lookback\<close> candles and every reported index is a position of the
  series inside that window.
\<close>

lemma index_within_window:
  assumes "0 < lookback" and "lookback \<le> int (length data)"
    and "p \<in> set (detectCandlePatterns data lookback)"
  shows "int (length data) - lookback \<le> index p \<and> index p < int (length data)"
proof -
  have len: "length (slice_from data (- lookback)) = nat lookback"
    using assms(1,2) by (auto simp: slice_from_def Let_def max_def)
  from assms(3) have "p \<in> set (scanPatterns data lookback)"
    by (auto simp: detectCandlePatterns_def slice_from_def Let_def
        split: if_splits dest: in_set_dropD)
  then obtain i where "i < nat lookback" and "p \<in> set (scanStep (length data) lookback
      (slice_from data (- lookback))
      (foldl (\<lambda>sum c. sum + bodySize c) 0 (slice_from data (- lookback)) /
         real (length (slice_from data (- lookback)))) [] i)"
    unfolding scanPatterns_def Let_def foldl_scanStep append_Nil len by auto
  then show ?thesis
    using assms(1) by (auto dest!: scanStep_index)
qed

section \<open>Properties of the pattern detector\<close>

text \<open>
  C6. The detector returns at most 10 patterns. On a series of at least 3 candles the
  result is the list of all matches of the scan with everything but its last 10 entries
  dropped, so truncation follows the full scan. The scan lists matches in ascending order
  of their index, hence no dropped match has a higher index than a kept one.
\<close>

theorem keeps_last_ten_matches:
   "length (detectCandlePatterns data lookback) \<le> 10 \<and>
    sorted (map index (scanPatterns data lookback)) \<and>
    (3 \<le> length data \<longrightarrow>
       detectCandlePatterns data lookback =
         drop (length (scanPatterns data lookback) - 10) (scanPatterns data lookback) \<and>
       (\<forall>d \<in> set (take (length (scanPatterns data lookback) - 10) (scanPatterns data lookback)).
          \<forall>k \<in> set (detectCandlePatterns data lookback). index d \<le> index k))"
proof -
  let ?scan = "scanPatterns data lookback"
  let ?n = "length ?scan - 10"
  have sl: "slice_from ?scan (- 10) = drop ?n ?scan"
    using slice_last [of 10 ?scan] by simp
  have len: "length (detectCandlePatterns data lookback) \<le> 10"
    unfolding detectCandlePatterns_def sl by (simp, arith)
  have srt: "sorted (map index ?scan)"
    by (rule scanPatterns_sorted)
  have "sorted (map index (take ?n ?scan) @ map index (drop ?n ?scan))"
    using srt by (simp flip: map_append)
  then have cross: "\<forall>d \<in> set (take ?n ?scan). \<forall>k \<in> set (drop ?n ?scan). index d \<le> index k"
    by (simp add: sorted_append)
  show ?thesis
    using len srt cross by (simp add: detectCandlePatterns_def sl)
qed

theorem keeps_last_ten_matches_witness:
  "3 \<le> length rising_series \<and>
   map index (scanPatterns rising_series 13) = [2, 3, 4, 5, 6, 7, 8, 9, 10, 11, 12] \<and>
   detectCandlePatterns rising_series 13 = drop 1 (scanPatterns rising_series 13) \<and>
   map index (detectCandlePatterns rising_series 13) = [3, 4, 5, 6, 7, 8, 9, 10, 11, 12]"
proof -
  have n: "3 \<le> length rising_series"
    by (simp add: rising_series_def)
  have all: "map index (scanPatterns rising_series 13) = [2, 3, 4, 5, 6, 7, 8, 9, 10, 11, 12]"
    by code_simp
  then have "length (map index (scanPatterns rising_series 13)) = 11"
    by simp
  then have len: "length (scanPatterns rising_series 13) = 11"
    by simp
  have kept: "detectCandlePatterns rising_series 13 = drop 1 (scanPatterns rising_series 13)"
    using keeps_last_ten_matches [of rising_series 13] n len by simp
  show ?thesis
    using n all kept by (simp flip: drop_map)
qed

text \<open>
  C1. A pattern's \<open>index\<close> is meant to be the position, in the full series, of the candle
  that ends the match. The loop computes it as \<open>data.length - lookback + i\<close>, which is
  that position only while \<open>lookback\<close> is positive and does not exceed the length of
  the series (\<open>index_within_window\<close>). On four candles scanned with a lookback of 30, the Morning
  Star ending at position 3 is reported at index \<open>-23\<close>, outside the series.
\<close>

theorem index_outside_series:
  "detectCandlePatterns four_candles 30 =
     [\<lparr>name = ''Morning Star'', ptype = bullish,
       description = ''Strong bullish reversal (3-candle)'', index = - 23,
       reliability = high_rel\<rparr>]"
  by code_simp

text \<open>
  C2. On fewer than three candles the detector returns the empty list (\<open>detect_short\<close>).
  On the three-candle Morning Star, called with the default lookback of 50, it returns
  the bullish, high-reliability Morning Star entry, but at index \<open>-45\<close> and not at the
  last index 2.
\<close>

theorem morning_star_default_lookback:
  "detectCandlePatterns morning_star_series 50 =
     [\<lparr>name = ''Morning Star'', ptype = bullish,
       description = ''Strong bullish reversal (3-candle)'', index = - 45,
       reliability = high_rel\<rparr>]"
  by code_simp

text \<open>With a lookback equal to the length of the series the entry is at index 2.\<close>

lemma morning_star_lookback_three:
  "detectCandlePatterns morning_star_series 3 =
     [\<lparr>name = ''Morning Star'', ptype = bullish,
       description = ''Strong bullish reversal (3-candle)'', index = 2,
       reliability = high_rel\<rparr>]"
  by code_simp

section \<open>Peak finding\<close>

lemma peakFlags_fold:
  "foldl (peakFlagStep data i v) flags js =
     (fst flags \<and> (\<forall>j\<in>set js. j \<noteq> i \<longrightarrow> (case data ! j of None \<Rightarrow> True | Some u \<Rightarrow> u < v)),
      snd flags \<and> (\<forall>j\<in>set js. j \<noteq> i \<longrightarrow> (case data ! j of None \<Rightarrow> True | Some u \<Rightarrow> u > v)))"
proof (induction js arbitrary: flags)
  case Nil
  show ?case by simp
next
  case (Cons j js)
  show ?case
    unfolding foldl_Cons Cons.IH
    by (cases "data ! j") (auto simp: peakFlagStep_def)
qed

lemma window_set: "set [i - w ..< i + w + 1] = {i - w .. i + (w::nat)}"
  by auto

lemma fst_peakFlags:
  "fst (peakFlags data w i v) \<longleftrightarrow>
     (\<forall>j\<in>{i - w .. i + w}. j \<noteq> i \<longrightarrow> (case data ! j of None \<Rightarrow> True | Some u \<Rightarrow> u < v))"
  unfolding peakFlags_def peakFlags_fold window_set by simp

lemma snd_peakFlags:
  "snd (peakFlags data w i v) \<longleftrightarrow>
     (\<forall>j\<in>{i - w .. i + w}. j \<noteq> i \<longrightarrow> (case data ! j of None \<Rightarrow> True | Some u \<Rightarrow> u > v))"
  unfolding peakFlags_def peakFlags_fold window_set by simp

lemma findPeaksStep_conv:
  "findPeaksStep data w peaks i = peaks @ findPeaksStep data w [] i"
  by (simp add: findPeaksStep_def Let_def split: option.split)

lemma foldl_findPeaksStep:
  "foldl (findPeaksStep data w) peaks js = peaks @ concat (map (findPeaksStep data w []) js)"
proof (induction js arbitrary: peaks)
  case Nil
  show ?case by simp
next
  case (Cons j js)
  have "foldl (findPeaksStep data w) peaks (j # js) =
        foldl (findPeaksStep data w) (findPeaksStep data w peaks j) js"
    by simp
  also have "\<dots> = findPeaksStep data w peaks j @ concat (map (findPeaksStep data w []) js)"
    by (rule Cons.IH)
  also have "findPeaksStep data w peaks j = peaks @ findPeaksStep data w [] j"
    by (rule findPeaksStep_conv)
  finally show ?case by simp
qed

lemma findPeaks_concat:
  "findPeaks data w = concat (map (findPeaksStep data w []) [w ..< length data - w])"
  by (simp add: findPeaks_def foldl_findPeaksStep)

lemma in_findPeaksStep:
  "p \<in> set (findPeaksStep data w [] i) \<longleftrightarrow>
     (\<exists>v. data ! i = Some v \<and> pk_index p = i \<and> pk_value p = v \<and>
          (pk_type p = High \<and> fst (peakFlags data w i v) \<or>
           pk_type p = Low \<and> snd (peakFlags data w i v)))"
  by (cases "data ! i"; cases p) (auto simp: findPeaksStep_def Let_def)

lemma in_findPeaks:
  "p \<in> set (findPeaks data w) \<longleftrightarrow>
     w \<le> pk_index p \<and> pk_index p < length data - w \<and>
     data ! pk_index p = Some (pk_value p) \<and>
     (pk_type p = High \<and> fst (peakFlags data w (pk_index p) (pk_value p)) \<or>
      pk_type p = Low \<and> snd (peakFlags data w (pk_index p) (pk_value p)))"
  by (auto simp: findPeaks_concat in_findPeaksStep)

text \<open>
  C8. For a half-window \<open>w\<close> and a position \<open>i\<close> with \<open>w \<le> i < length - w\<close>,
  \<open>findPeaks\<close> reports \<open>i\<close> as a high exactly when the value at \<open>i\<close> is defined and every
  other position of \<open>[i - w, i + w]\<close> with a defined value has a strictly smaller one, and
  as a low exactly when every such position has a strictly greater one. Undefined values
  are skipped: an undefined \<open>i\<close> is never reported, an undefined neighbour is passed over.
  Every reported index lies in that range, and the reported value is the value of the
  series there.
\<close>

theorem findPeaks_local_extrema:
  assumes "w \<le> i" and "i < length data - w"
  shows "((\<exists>p\<in>set (findPeaks data w). pk_index p = i \<and> pk_type p = High) \<longleftrightarrow>
            (\<exists>v. data ! i = Some v \<and>
                 (\<forall>j\<in>{i - w .. i + w}. j \<noteq> i \<longrightarrow>
                    (case data ! j of None \<Rightarrow> True | Some u \<Rightarrow> u < v)))) \<and>
         ((\<exists>p\<in>set (findPeaks data w). pk_index p = i \<and> pk_type p = Low) \<longleftrightarrow>
            (\<exists>v. data ! i = Some v \<and>
                 (\<forall>j\<in>{i - w .. i + w}. j \<noteq> i \<longrightarrow>
                    (case data ! j of None \<Rightarrow> True | Some u \<Rightarrow> u > v)))) \<and>
         (\<forall>p\<in>set (findPeaks data w).
            w \<le> pk_index p \<and> pk_index p < length data - w \<and>
            data ! pk_index p = Some (pk_value p))"
proof (intro conjI)
  show "(\<exists>p\<in>set (findPeaks data w). pk_index p = i \<and> pk_type p = High) \<longleftrightarrow>
        (\<exists>v. data ! i = Some v \<and>
             (\<forall>j\<in>{i - w .. i + w}. j \<noteq> i \<longrightarrow>
                (case data ! j of None \<Rightarrow> True | Some u \<Rightarrow> u < v)))"
    (is "?L \<longleftrightarrow> ?R")
  proof
    assume ?L
    then show ?R
      by (auto simp: in_findPeaks fst_peakFlags)
  next
    assume ?R
    then obtain v where v: "data ! i = Some v" "fst (peakFlags data w i v)"
      by (auto simp: fst_peakFlags)
    then have "\<lparr>pk_index = i, pk_value = v, pk_type = High\<rparr> \<in> set (findPeaks data w)"
      using assms by (simp add: in_findPeaks)
    then show ?L
      by (intro bexI [where x = "\<lparr>pk_index = i, pk_value = v, pk_type = High\<rparr>"]) simp_all
  qed
  show "(\<exists>p\<in>set (findPeaks data w). pk_index p = i \<and> pk_type p = Low) \<longleftrightarrow>
        (\<exists>v. data ! i = Some v \<and>
             (\<forall>j\<in>{i - w .. i + w}. j \<noteq> i \<longrightarrow>
                (case data ! j of None \<Rightarrow> True | Some u \<Rightarrow> u > v)))"
    (is "?L \<longleftrightarrow> ?R")
  proof
    assume ?L
    then show ?R
      by (auto simp: in_findPeaks snd_peakFlags)
  next
    assume ?R
    then obtain v where v: "data ! i = Some v" "snd (peakFlags data w i v)"
      by (auto simp: snd_peakFlags)
    then have "\<lparr>pk_index = i, pk_value = v, pk_type = Low\<rparr> \<in> set (findPeaks data w)"
      using assms by (simp add: in_findPeaks)
    then show ?L
      by (intro bexI [where x = "\<lparr>pk_index = i, pk_value = v, pk_type = Low\<rparr>"]) simp_all
  qed
  show "\<forall>p\<in>set (findPeaks data w).
          w \<le> pk_index p \<and> pk_index p < length data - w \<and>
          data ! pk_index p = Some (pk_value p)"
    by (simp add: in_findPeaks)
qed

theorem findPeaks_local_extrema_witness:
  "(1::nat) \<le> 2 \<and> 2 < length peak_series - 1 \<and>
   findPeaks peak_series 1 =
     [\<lparr>pk_index = 1, pk_value = 1, pk_type = Low\<rparr>,
      \<lparr>pk_index = 2, pk_value = 3, pk_type = High\<rparr>,
      \<lparr>pk_index = 3, pk_value = 2, pk_type = Low\<rparr>,
      \<lparr>pk_index = 5, pk_value = 0, pk_type = Low\<rparr>] \<and>
   (\<exists>v. peak_series ! 2 = Some v \<and>
        (\<forall>j\<in>{2 - 1 .. 2 + 1}. j \<noteq> 2 \<longrightarrow>
           (case peak_series ! j of None \<Rightarrow> True | Some u \<Rightarrow> u < v)))"
proof -
  have h1: "(1::nat) \<le> 2"
    by simp
  have h2: "2 < length peak_series - 1"
    by (simp add: peak_series_def)
  have peaks: "findPeaks peak_series 1 =
     [\<lparr>pk_index = 1, pk_value = 1, pk_type = Low\<rparr>,
      \<lparr>pk_index = 2, pk_value = 3, pk_type = High\<rparr>,
      \<lparr>pk_index = 3, pk_value = 2, pk_type = Low\<rparr>,
      \<lparr>pk_index = 5, pk_value = 0, pk_type = Low\<rparr>]"
    by code_simp
  have "\<exists>p\<in>set (findPeaks peak_series 1). pk_index p = 2 \<and> pk_type p = High"
    unfolding peaks by simp
  then have "\<exists>v. peak_series ! 2 = Some v \<and>
        (\<forall>j\<in>{2 - 1 .. 2 + 1}. j \<noteq> 2 \<longrightarrow>
           (case peak_series ! j of None \<Rightarrow> True | Some u \<Rightarrow> u < v))"
    using findPeaks_local_extrema [OF h1 h2] by blast
  then show ?thesis
    using h1 h2 peaks by blast
qed

section \<open>Divergences between price and indicator\<close>

text \<open>Peaks of one type come out in strictly ascending order of their index.\<close>

lemma strict_blocks:
  fixes f :: "nat \<Rightarrow> Peak list"
  assumes one: "\<And>i. length (f i) \<le> 1"
    and blk: "\<And>i p. p \<in> set (f i) \<Longrightarrow> pk_index p = i"
  shows "sorted_wrt (<) js \<Longrightarrow> sorted_wrt (<) (map pk_index (concat (map f js)))"
proof (induction js)
  case Nil
  show ?case by simp
next
  case (Cons j js)
  have rest: "sorted_wrt (<) (map pk_index (concat (map f js)))"
    using Cons by simp
  have here: "sorted_wrt (<) (map pk_index (f j))"
    using one [of j] by (cases "f j") auto
  have cross: "x < y" if "x \<in> set (map pk_index (f j))"
    and "y \<in> set (map pk_index (concat (map f js)))" for x y
  proof -
    from that(1) have x: "x = j" by (auto dest: blk)
    from that(2) obtain j' where j': "j' \<in> set js" and "y = j'"
      by (auto dest: blk)
    moreover from Cons.prems j' have "j < j'" by auto
    ultimately show ?thesis using x by simp
  qed
  show ?case
    using rest here cross by (simp add: sorted_wrt_append)
qed

lemma filter_findPeaksStep_length:
  "length (filter (\<lambda>p. pk_type p = t) (findPeaksStep data w [] i)) \<le> 1"
  by (cases t) (simp_all add: findPeaksStep_def Let_def split: option.split)

lemma peaks_of_type_ascending:
  "sorted_wrt (<) (map pk_index (filter (\<lambda>p. pk_type p = t) (findPeaks data w)))"
  unfolding findPeaks_concat filter_concat map_map
proof -
  have "sorted_wrt (<) (map pk_index (concat (map
          (\<lambda>i. filter (\<lambda>p. pk_type p = t) (findPeaksStep data w [] i)) [w ..< length data - w])))"
    by (rule strict_blocks) (use filter_findPeaksStep_length in \<open>auto simp: in_findPeaksStep\<close>)
  then show "sorted_wrt (<) (map pk_index (concat (map
          (filter (\<lambda>p. pk_type p = t) \<circ> findPeaksStep data w []) [w ..< length data - w])))"
    by (simp add: comp_def)
qed

lemma consecutive_peaks_ascending:
  assumes "i < length (filter (\<lambda>p. pk_type p = t) (findPeaks data w)) - 1"
  shows "pk_index (filter (\<lambda>p. pk_type p = t) (findPeaks data w) ! i) <
         pk_index (filter (\<lambda>p. pk_type p = t) (findPeaks data w) ! (i + 1))"
proof -
  let ?ps = "filter (\<lambda>p. pk_type p = t) (findPeaks data w)"
  have "map pk_index ?ps ! i < map pk_index ?ps ! (i + 1)"
    using assms by (intro sorted_wrt_nth_less [OF peaks_of_type_ascending]) simp_all
  then show ?thesis
    using assms by simp
qed

text \<open>What one pass of each loop can append.\<close>

lemma bearishStep_conv:
  "bearishStep ihs nm lb md phs ds i = ds @ bearishStep ihs nm lb md phs [] i"
  by (simp add: bearishStep_def Let_def split: option.split)

lemma bullishStep_conv:
  "bullishStep ils nm lb md pls ds i = ds @ bullishStep ils nm lb md pls [] i"
  by (simp add: bullishStep_def Let_def split: option.split)

lemma foldl_bearishStep:
  "foldl (bearishStep ihs nm lb md phs) ds js =
     ds @ concat (map (bearishStep ihs nm lb md phs []) js)"
proof (induction js arbitrary: ds)
  case Nil
  show ?case by simp
next
  case (Cons j js)
  show ?case
    unfolding foldl_Cons Cons.IH [of "bearishStep ihs nm lb md phs ds j"]
    by (subst bearishStep_conv) simp
qed

lemma foldl_bullishStep:
  "foldl (bullishStep ils nm lb md pls) ds js =
     ds @ concat (map (bullishStep ils nm lb md pls []) js)"
proof (induction js arbitrary: ds)
  case Nil
  show ?case by simp
next
  case (Cons j js)
  show ?case
    unfolding foldl_Cons Cons.IH [of "bullishStep ils nm lb md pls ds j"]
    by (subst bullishStep_conv) simp
qed

lemma in_bearishStep:
  assumes "d \<in> set (bearishStep ihs nm lb md phs [] i)"
  shows "dtype d = div_bearish \<and> indicator d = nm \<and>
         startIndex d = pk_index (phs ! i) \<and> endIndex d = pk_index (phs ! (i + 1)) \<and>
         priceStart d < priceEnd d \<and> indicatorEnd d < indicatorStart d \<and>
         strength d = classifyStrength (combinedStrengthOf d)"
  using assms
  by (auto simp: bearishStep_def Let_def combinedStrengthOf_def dsub_def
      split: if_splits option.splits)

lemma in_bullishStep:
  assumes "d \<in> set (bullishStep ils nm lb md pls [] i)"
  shows "dtype d = div_bullish \<and> indicator d = nm \<and>
         startIndex d = pk_index (pls ! i) \<and> endIndex d = pk_index (pls ! (i + 1)) \<and>
         priceEnd d < priceStart d \<and> indicatorStart d < indicatorEnd d \<and>
         strength d = classifyStrength (combinedStrengthOf d)"
  using assms
  by (auto simp: bullishStep_def Let_def combinedStrengthOf_def dsub_def
      split: if_splits option.splits)

lemma in_detectDivergences:
  assumes "d \<in> set (detectDivergences prices ivs nm lb md)"
  shows "indicator d = nm \<and> startIndex d < endIndex d \<and>
         strength d = classifyStrength (combinedStrengthOf d) \<and>
         (dtype d = div_bearish \<and> priceStart d < priceEnd d \<and> indicatorEnd d < indicatorStart d \<or>
          dtype d = div_bullish \<and> priceEnd d < priceStart d \<and> indicatorStart d < indicatorEnd d)"
proof -
  let ?phs = "filter (\<lambda>p. pk_type p = High) (findPeaks prices lb)"
  let ?pls = "filter (\<lambda>p. pk_type p = Low) (findPeaks prices lb)"
  let ?ihs = "filter (\<lambda>p. pk_type p = High) (findPeaks ivs lb)"
  let ?ils = "filter (\<lambda>p. pk_type p = Low) (findPeaks ivs lb)"
  from assms consider
    (bear) i where "i < length ?phs - 1" "d \<in> set (bearishStep ?ihs nm lb md ?phs [] i)"
  | (bull) i where "i < length ?pls - 1" "d \<in> set (bullishStep ?ils nm lb md ?pls [] i)"
    unfolding detectDivergences_def Let_def foldl_bullishStep foldl_bearishStep
    by auto
  then show ?thesis
  proof cases
    case bear
    from in_bearishStep [OF bear(2)] consecutive_peaks_ascending [OF bear(1)]
    show ?thesis by simp
  next
    case bull
    from in_bullishStep [OF bull(2)] consecutive_peaks_ascending [OF bull(1)]
    show ?thesis by simp
  qed
qed

text \<open>
  The detector is evaluated on a concrete series in two stages: the peaks of the two
  series first, then the two loops over them.
\<close>

lemmas divergence_eval =
  detectDivergences_def bearishStep_def bullishStep_def nearPeak_def orOne_def
  classifyStrength_def dsub_def upt_rec

lemma peaks_bearish_prices: "findPeaks bearish_prices 5 =
   [\<lparr>pk_index = 5, pk_value = 100, pk_type = High\<rparr>,
    \<lparr>pk_index = 10, pk_value = 95, pk_type = Low\<rparr>,
    \<lparr>pk_index = 13, pk_value = 110, pk_type = High\<rparr>]"
  by code_simp

lemma peaks_bearish_indicator: "findPeaks bearish_indicator 5 =
   [\<lparr>pk_index = 5, pk_value = 70, pk_type = High\<rparr>,
    \<lparr>pk_index = 10, pk_value = 55, pk_type = Low\<rparr>,
    \<lparr>pk_index = 13, pk_value = 63, pk_type = High\<rparr>]"
  by code_simp

lemma peaks_flat_prices: "findPeaks flat_prices 5 =
   [\<lparr>pk_index = 5, pk_value = 100, pk_type = High\<rparr>,
    \<lparr>pk_index = 10, pk_value = 95, pk_type = Low\<rparr>,
    \<lparr>pk_index = 13, pk_value = 101, pk_type = High\<rparr>]"
  by code_simp

lemma peaks_zero_start_indicator: "findPeaks zero_start_indicator 5 =
   [\<lparr>pk_index = 5, pk_value = 0, pk_type = High\<rparr>,
    \<lparr>pk_index = 10, pk_value = - 5, pk_type = Low\<rparr>,
    \<lparr>pk_index = 13, pk_value = - (1 / 64), pk_type = High\<rparr>]"
  by code_simp

lemma peaks_negative_prices: "findPeaks negative_prices 5 =
   [\<lparr>pk_index = 5, pk_value = - 2, pk_type = High\<rparr>,
    \<lparr>pk_index = 10, pk_value = - 7, pk_type = Low\<rparr>,
    \<lparr>pk_index = 13, pk_value = - 1, pk_type = High\<rparr>]"
  by code_simp

lemma peaks_boundary_indicator: "findPeaks boundary_indicator 5 =
   [\<lparr>pk_index = 5, pk_value = 100, pk_type = High\<rparr>,
    \<lparr>pk_index = 10, pk_value = 85, pk_type = Low\<rparr>,
    \<lparr>pk_index = 13, pk_value = 95, pk_type = High\<rparr>]"
  by code_simp

lemma peaks_three_peak_closes: "findPeaks three_peak_closes 5 =
   [\<lparr>pk_index = 5, pk_value = 100, pk_type = High\<rparr>,
    \<lparr>pk_index = 9, pk_value = 88, pk_type = Low\<rparr>,
    \<lparr>pk_index = 14, pk_value = 110, pk_type = High\<rparr>,
    \<lparr>pk_index = 18, pk_value = 98, pk_type = Low\<rparr>,
    \<lparr>pk_index = 23, pk_value = 120, pk_type = High\<rparr>]"
  by code_simp

lemma peaks_rsi_values: "findPeaks (rsi_values three_peak_closes 14) 5 =
   [\<lparr>pk_index = 5, pk_value = 70, pk_type = High\<rparr>,
    \<lparr>pk_index = 10, pk_value = 48, pk_type = Low\<rparr>,
    \<lparr>pk_index = 14, pk_value = 60, pk_type = High\<rparr>,
    \<lparr>pk_index = 18, pk_value = 48, pk_type = Low\<rparr>,
    \<lparr>pk_index = 23, pk_value = 65, pk_type = High\<rparr>]"
  by code_simp

lemma peaks_macd_values: "findPeaks (macd_values three_peak_closes) 5 =
   [\<lparr>pk_index = 5, pk_value = 1, pk_type = High\<rparr>,
    \<lparr>pk_index = 9, pk_value = - 11, pk_type = Low\<rparr>,
    \<lparr>pk_index = 14, pk_value = 3, pk_type = High\<rparr>,
    \<lparr>pk_index = 19, pk_value = - 10, pk_type = Low\<rparr>,
    \<lparr>pk_index = 23, pk_value = 2, pk_type = High\<rparr>]"
  by code_simp

text \<open>
  C10. Every divergence returned by \<open>detectDivergences\<close> starts before it ends. A bearish
  one pairs a higher price high with a lower indicator high, a bullish one a lower price
  low with a higher indicator low.
\<close>

theorem divergence_shape:
  "\<forall>d\<in>set (detectDivergences prices indicatorValues indicatorName lookback maxDistance).
     startIndex d < endIndex d \<and>
     (dtype d = div_bearish \<longrightarrow> priceEnd d > priceStart d \<and> indicatorEnd d < indicatorStart d) \<and>
     (dtype d = div_bullish \<longrightarrow> priceEnd d < priceStart d \<and> indicatorEnd d > indicatorStart d)"
proof
  fix d
  assume "d \<in> set (detectDivergences prices indicatorValues indicatorName lookback maxDistance)"
  then have ordered: "startIndex d < endIndex d"
    and shape:
      "dtype d = div_bearish \<and> priceStart d < priceEnd d \<and> indicatorEnd d < indicatorStart d \<or>
       dtype d = div_bullish \<and> priceEnd d < priceStart d \<and> indicatorStart d < indicatorEnd d"
    by (simp_all add: in_detectDivergences)
  from shape show "startIndex d < endIndex d \<and>
     (dtype d = div_bearish \<longrightarrow> priceEnd d > priceStart d \<and> indicatorEnd d < indicatorStart d) \<and>
     (dtype d = div_bullish \<longrightarrow> priceEnd d < priceStart d \<and> indicatorEnd d > indicatorStart d)"
    using ordered by auto
qed

theorem divergence_shape_witness:
  "detectDivergences bearish_prices bearish_indicator RSI 5 30 =
     [\<lparr>dtype = div_bearish, indicator = RSI, startIndex = 5, endIndex = 13,
       priceStart = 100, priceEnd = 110, indicatorStart = 70, indicatorEnd = 63,
       strength = strong\<rparr>] \<and>
   startIndex (hd (detectDivergences bearish_prices bearish_indicator RSI 5 30)) <
     endIndex (hd (detectDivergences bearish_prices bearish_indicator RSI 5 30)) \<and>
   priceEnd (hd (detectDivergences bearish_prices bearish_indicator RSI 5 30)) >
     priceStart (hd (detectDivergences bearish_prices bearish_indicator RSI 5 30)) \<and>
   indicatorEnd (hd (detectDivergences bearish_prices bearish_indicator RSI 5 30)) <
     indicatorStart (hd (detectDivergences bearish_prices bearish_indicator RSI 5 30))"
proof -
  let ?ds = "detectDivergences bearish_prices bearish_indicator RSI 5 30"
  have ev: "?ds =
     [\<lparr>dtype = div_bearish, indicator = RSI, startIndex = 5, endIndex = 13,
       priceStart = 100, priceEnd = 110, indicatorStart = 70, indicatorEnd = 63,
       strength = strong\<rparr>]"
    by (simp add: divergence_eval peaks_bearish_prices peaks_bearish_indicator fl_eval)
  then have mem: "hd ?ds \<in> set ?ds" and bear: "dtype (hd ?ds) = div_bearish"
    by simp_all
  from divergence_shape [of bearish_prices bearish_indicator RSI 5 30] mem bear
  have "startIndex (hd ?ds) < endIndex (hd ?ds) \<and> priceEnd (hd ?ds) > priceStart (hd ?ds) \<and>
        indicatorEnd (hd ?ds) < indicatorStart (hd ?ds)"
    by blast
  with ev show ?thesis by blast
qed

lemma dgt_thresholds: "dgt c (fl (15/100)) \<Longrightarrow> dgt c (fl (8/100))"
  unfolding thresholds by (cases c) simp_all

lemma dle_dgt: "dgt c (fl (8/100)) \<Longrightarrow> dle c (fl (15/100)) \<longleftrightarrow> \<not> dgt c (fl (15/100))"
  unfolding thresholds dle_def by (cases c) simp_all

text \<open>
  C7, as amended. The strength of every returned divergence is the class of the combined
  metric \<open>combinedStrengthOf\<close>, computed in binary64 arithmetic: the price move divided
  by the first price itself, plus the indicator move divided by the magnitude of the
  first indicator value, or by 1 when that value is 0, every operation rounded. The
  class is \<open>strong\<close> exactly when the metric exceeds the binary64 number nearest to
  \<open>0.15\<close>, \<open>moderate\<close> exactly when it exceeds the one nearest to \<open>0.08\<close> and not the
  former, and \<open>weak\<close> otherwise, which includes a metric that is NaN; a metric equal to
  the binary64 number nearest to \<open>0.20\<close> is \<open>strong\<close>.
\<close>

theorem strength_thresholds:
  "(\<forall>d\<in>set (detectDivergences prices indicatorValues indicatorName lookback maxDistance).
      (strength d = strong \<longleftrightarrow> dgt (combinedStrengthOf d) (fl (15/100))) \<and>
      (strength d = moderate \<longleftrightarrow>
         dgt (combinedStrengthOf d) (fl (8/100)) \<and> dle (combinedStrengthOf d) (fl (15/100))) \<and>
      (strength d = weak \<longleftrightarrow> \<not> dgt (combinedStrengthOf d) (fl (8/100)))) \<and>
   classifyStrength (fl (20/100)) = strong"
proof -
  have "(strength d = strong \<longleftrightarrow> dgt (combinedStrengthOf d) (fl (15/100))) \<and>
      (strength d = moderate \<longleftrightarrow>
         dgt (combinedStrengthOf d) (fl (8/100)) \<and> dle (combinedStrengthOf d) (fl (15/100))) \<and>
      (strength d = weak \<longleftrightarrow> \<not> dgt (combinedStrengthOf d) (fl (8/100)))"
    if "d \<in> set (detectDivergences prices indicatorValues indicatorName lookback maxDistance)"
    for d
  proof -
    from in_detectDivergences [OF that]
    have s: "strength d = classifyStrength (combinedStrengthOf d)"
      by auto
    show ?thesis
      using dgt_thresholds [of "combinedStrengthOf d"] dle_dgt [of "combinedStrengthOf d"]
      unfolding s classifyStrength_def by auto
  qed
  moreover have "classifyStrength (fl (20/100)) = strong"
    unfolding classifyStrength_def thresholds by simp
  ultimately show ?thesis by blast
qed

theorem strength_thresholds_witness:
  "combinedStrengthOf (hd (detectDivergences bearish_prices bearish_indicator MACD 5 25)) =
     fl (20/100) \<and>
   strength (hd (detectDivergences bearish_prices bearish_indicator MACD 5 25)) = strong"
proof -
  let ?ds = "detectDivergences bearish_prices bearish_indicator MACD 5 25"
  have ev: "?ds =
     [\<lparr>dtype = div_bearish, indicator = MACD, startIndex = 5, endIndex = 13,
       priceStart = 100, priceEnd = 110, indicatorStart = 70, indicatorEnd = 63,
       strength = strong\<rparr>]"
    by (simp add: divergence_eval peaks_bearish_prices peaks_bearish_indicator fl_eval)
  then have mem: "hd ?ds \<in> set ?ds"
    by simp
  have c: "combinedStrengthOf (hd ?ds) = fl (20/100)"
    unfolding ev by (simp add: combinedStrengthOf_def orOne_def fl_eval)
  have "dgt (combinedStrengthOf (hd ?ds)) (fl (15/100))"
    unfolding c thresholds by simp
  with strength_thresholds [of bearish_prices bearish_indicator MACD 5 25] mem
  have "strength (hd ?ds) = strong"
    by blast
  with c show ?thesis by blast
qed

text \<open>
  C7, as stated, fails where the first indicator value is 0. The specification's metric
  normalises the indicator move \<open>1/64\<close> by the magnitude 0 of the first point, which is
  infinite and hence \<open>strong\<close>; the program divides by 1 and reports \<open>weak\<close>. It also
  fails where the first price is negative: the program divides the price move by the
  first price, not by its magnitude, so a move from \<open>-2\<close> to \<open>-1\<close> counts as \<open>-0.5\<close>
  and the divergence is \<open>weak\<close>, while the specification's metric is \<open>0.5 + 0.1\<close>.
\<close>

theorem strength_not_by_first_magnitude:
  "map strength (detectDivergences flat_prices zero_start_indicator MACD 5 25) = [weak] \<and>
   map indicatorStart (detectDivergences flat_prices zero_start_indicator MACD 5 25) = [0] \<and>
   map spec_strength (detectDivergences flat_prices zero_start_indicator MACD 5 25) = [strong] \<and>
   map strength (detectDivergences negative_prices bearish_indicator RSI 5 25) = [weak] \<and>
   map priceStart (detectDivergences negative_prices bearish_indicator RSI 5 25) = [- 2] \<and>
   map spec_strength (detectDivergences negative_prices bearish_indicator RSI 5 25) = [strong]"
proof -
  have zero: "detectDivergences flat_prices zero_start_indicator MACD 5 25 =
      [\<lparr>dtype = div_bearish, indicator = MACD, startIndex = 5, endIndex = 13,
        priceStart = 100, priceEnd = 101, indicatorStart = 0, indicatorEnd = - (1 / 64),
        strength = weak\<rparr>]"
    by (simp add: divergence_eval peaks_flat_prices peaks_zero_start_indicator fl_eval)
  have neg: "detectDivergences negative_prices bearish_indicator RSI 5 25 =
      [\<lparr>dtype = div_bearish, indicator = RSI, startIndex = 5, endIndex = 13,
        priceStart = - 2, priceEnd = - 1, indicatorStart = 70, indicatorEnd = 63,
        strength = weak\<rparr>]"
    by (simp add: divergence_eval peaks_negative_prices peaks_bearish_indicator fl_eval)
  show ?thesis
    unfolding zero neg
    by (simp add: spec_strength_def spec_combinedStrength_def classifyStrength_def fl_eval)
qed

text \<open>
  Rounding decides at the threshold. With price highs 100 and 110 and indicator highs 100
  and 95 the two relative moves are \<open>0.1\<close> and \<open>0.05\<close>; their rounded sum is
  \<open>0.15000000000000002\<close>, the binary64 number next above the threshold \<open>0.15\<close>, and the
  divergence is \<open>strong\<close>.
\<close>

lemma boundary_rounds_up:
  "detectDivergences bearish_prices boundary_indicator RSI 5 30 =
     [\<lparr>dtype = div_bearish, indicator = RSI, startIndex = 5, endIndex = 13,
       priceStart = 100, priceEnd = 110, indicatorStart = 100, indicatorEnd = 95,
       strength = strong\<rparr>] \<and>
   map combinedStrengthOf (detectDivergences bearish_prices boundary_indicator RSI 5 30) =
     [Fin (1351079888211149 / 9007199254740992)] \<and>
   fl (15 / 100) = Fin (1351079888211149 / 9007199254740992 - 1 / 2 ^ 55)"
proof -
  have ev: "detectDivergences bearish_prices boundary_indicator RSI 5 30 =
     [\<lparr>dtype = div_bearish, indicator = RSI, startIndex = 5, endIndex = 13,
       priceStart = 100, priceEnd = 110, indicatorStart = 100, indicatorEnd = 95,
       strength = strong\<rparr>]"
    by (simp add: divergence_eval peaks_bearish_prices peaks_boundary_indicator fl_eval)
  show ?thesis
    unfolding ev by (simp add: combinedStrengthOf_def orOne_def fl_eval)
qed

section \<open>Aggregation of the two detectors\<close>

lemma desc_sorted:
  "sorted_wrt (\<lambda>a b. endIndex a \<ge> endIndex b) (sort_key (\<lambda>d. - int (endIndex d)) ds)"
proof -
  have "sorted (map (\<lambda>d. - int (endIndex d)) (sort_key (\<lambda>d. - int (endIndex d)) ds))"
    by (rule sorted_sort_key)
  then show ?thesis
    by (simp add: sorted_map sorted_wrt_iff_nth_less)
qed

text \<open>
  C5. For a series shorter than 30 candles the aggregated result is empty. Otherwise it
  is the first 10 entries of an ordering, descending in \<open>endIndex\<close>, of the RSI
  divergences followed by the MACD-histogram divergences; it never has more than 10
  entries. This holds whatever series the two indicator functions return.
\<close>

theorem divergences_aggregation:
  "(length data < 30 \<longrightarrow> divergences rsi macdHistogram data = []) \<and>
   (30 \<le> length data \<longrightarrow>
      (\<exists>ordered.
         mset ordered =
           mset (detectDivergences (map (\<lambda>d. Some (close d)) data)
                   (rsi (map (\<lambda>d. Some (close d)) data) 14) RSI 5 25 @
                 detectDivergences (map (\<lambda>d. Some (close d)) data)
                   (macdHistogram (map (\<lambda>d. Some (close d)) data)) MACD 5 25) \<and>
         sorted_wrt (\<lambda>a b. endIndex a \<ge> endIndex b) ordered \<and>
         divergences rsi macdHistogram data = take 10 ordered)) \<and>
   length (divergences rsi macdHistogram data) \<le> 10"
proof -
  let ?closes = "map (\<lambda>d. Some (close d)) data"
  let ?merged = "detectDivergences ?closes (rsi ?closes 14) RSI 5 25 @
                 detectDivergences ?closes (macdHistogram ?closes) MACD 5 25"
  let ?ordered = "sort_key (\<lambda>d. - int (endIndex d)) ?merged"
  have short: "length data < 30 \<Longrightarrow> divergences rsi macdHistogram data = []"
    by (simp add: divergences_def)
  have long: "30 \<le> length data \<Longrightarrow> divergences rsi macdHistogram data = take 10 ?ordered"
    by (simp add: divergences_def Let_def)
  have "mset ?ordered = mset ?merged"
    by simp
  moreover have "sorted_wrt (\<lambda>a b. endIndex a \<ge> endIndex b) ?ordered"
    by (rule desc_sorted)
  ultimately have ex: "30 \<le> length data \<Longrightarrow>
      \<exists>ordered. mset ordered = mset ?merged \<and>
        sorted_wrt (\<lambda>a b. endIndex a \<ge> endIndex b) ordered \<and>
        divergences rsi macdHistogram data = take 10 ordered"
    using long by blast
  have "length (divergences rsi macdHistogram data) \<le> 10"
    by (cases "length data < 30") (simp_all add: short long)
  with short ex show ?thesis
    by blast
qed

theorem divergences_aggregation_witness:
  "30 \<le> length thirty_candles \<and> length (take 29 thirty_candles) < 30 \<and>
   map indicator (divergences rsi_values macd_values thirty_candles) = [MACD, RSI] \<and>
   map endIndex (divergences rsi_values macd_values thirty_candles) = [23, 14] \<and>
   divergences rsi_values macd_values (take 29 thirty_candles) = [] \<and>
   length (divergences rsi_values macd_values thirty_candles) \<le> 10"
proof -
  have long: "30 \<le> length thirty_candles" and short: "length (take 29 thirty_candles) < 30"
    by (simp_all add: thirty_candles_def)
  have closes: "map (\<lambda>d. Some (close d)) thirty_candles = three_peak_closes"
    by (simp add: thirty_candles_def three_peak_closes_def)
  have r: "detectDivergences three_peak_closes (rsi_values three_peak_closes 14) RSI 5 25 =
      [\<lparr>dtype = div_bearish, indicator = RSI, startIndex = 5, endIndex = 14,
        priceStart = 100, priceEnd = 110, indicatorStart = 70, indicatorEnd = 60,
        strength = strong\<rparr>]"
    by (simp add: divergence_eval peaks_three_peak_closes peaks_rsi_values fl_eval)
  have m: "detectDivergences three_peak_closes (macd_values three_peak_closes) MACD 5 25 =
      [\<lparr>dtype = div_bearish, indicator = MACD, startIndex = 14, endIndex = 23,
        priceStart = 110, priceEnd = 120, indicatorStart = 3, indicatorEnd = 2,
        strength = strong\<rparr>]"
    by (simp add: divergence_eval peaks_three_peak_closes peaks_macd_values fl_eval)
  have ev: "map indicator (divergences rsi_values macd_values thirty_candles) = [MACD, RSI] \<and>
            map endIndex (divergences rsi_values macd_values thirty_candles) = [23, 14]"
    using long by (simp add: divergences_def Let_def closes r m)
  have "divergences rsi_values macd_values (take 29 thirty_candles) = []"
    using divergences_aggregation [of "take 29 thirty_candles" rsi_values macd_values] short
    by blast
  moreover have "length (divergences rsi_values macd_values thirty_candles) \<le> 10"
    using divergences_aggregation [of thirty_candles rsi_values macd_values] by blast
  ultimately show ?thesis
    using long short ev by blast
qed

section \<open>Correlation\<close>

text \<open>
  Swapping the two series swaps the two sums of squares and leaves every rounded
  operation the same, so the result is symmetric, whatever it is.
\<close>

lemma dmul_commute: "dmul a b = dmul b a"
  by (cases a; cases b) (auto simp: mult.commute)

lemma foldl_corrStep_swap:
  "foldl (corrStep bs as mB mA) (n0, b0, a0) js =
     (case foldl (corrStep as bs mA mB) (n0, a0, b0) js of (n, a, b) \<Rightarrow> (n, b, a))"
  by (induction js arbitrary: n0 a0 b0) (simp_all add: corrStep_def Let_def dmul_commute)

lemma calculateCorrelation_short:
  "min (length a) (length b) < 5 \<Longrightarrow> calculateCorrelation a b = Fin 0"
  by (simp add: calculateCorrelation_def Let_def)

lemma calculateCorrelation_commute:
  "calculateCorrelation a b = calculateCorrelation b a"
proof (cases "min (length a) (length b) < 5")
  case True
  then have "min (length b) (length a) < 5"
    by (simp add: min.commute)
  with True show ?thesis
    by (simp add: calculateCorrelation_short)
next
  case False
  define n where "n = min (length a) (length b)"
  define as where "as = slice_from a (- int n)"
  define bs where "bs = slice_from b (- int n)"
  define mA where "mA = ddiv (foldl (\<lambda>s v. dadd s (Fin v)) (Fin 0) as) (Fin (real n))"
  define mB where "mB = ddiv (foldl (\<lambda>s v. dadd s (Fin v)) (Fin 0) bs) (Fin (real n))"
  define final where "final = (\<lambda>(numerator, denomA, denomB).
      let denominator = dsqrt (dmul denomA denomB)
      in if denominator = Fin 0 then Fin 0 else ddiv numerator denominator)"
  have n': "min (length b) (length a) = n"
    by (simp add: n_def min.commute)
  have ab: "calculateCorrelation a b =
      final (foldl (corrStep as bs mA mB) (Fin 0, Fin 0, Fin 0) [0 ..< n])"
    using False
    unfolding calculateCorrelation_def n_def [symmetric] Let_def [of n]
    by (simp add: final_def mA_def mB_def as_def bs_def Let_def)
  have ba: "calculateCorrelation b a =
      final (foldl (corrStep bs as mB mA) (Fin 0, Fin 0, Fin 0) [0 ..< n])"
    using False
    unfolding calculateCorrelation_def n' Let_def [of n] n_def [symmetric]
    by (simp add: final_def mA_def mB_def as_def bs_def Let_def)
  obtain num dA dB where
    r: "foldl (corrStep as bs mA mB) (Fin 0, Fin 0, Fin 0) [0 ..< n] = (num, dA, dB)"
    by (metis prod_cases3)
  have r': "foldl (corrStep bs as mB mA) (Fin 0, Fin 0, Fin 0) [0 ..< n] = (num, dB, dA)"
    using foldl_corrStep_swap [of bs as mB mA "Fin 0" "Fin 0" "Fin 0" "[0 ..< n]"] r
    by simp
  show ?thesis
    unfolding ab ba r r' by (simp add: final_def dmul_commute [of dA dB])
qed

text \<open>
  C9 fails for series of zero variance. Fewer than 5 common points give 0
  (\<open>calculateCorrelation_short\<close>), but a constant series only has a zero denominator when
  its rounded mean is the constant itself. Six returns of \<open>0.1\<close> have the rounded mean
  \<open>0.09999999999999999\<close>, six of \<open>0.7\<close> the rounded mean \<open>0.7000000000000001\<close>: the
  deviations are \<open>2\<^sup>-\<^sup>5\<^sup>6\<close> and \<open>-2\<^sup>-\<^sup>5\<^sup>3\<close>, the denominator is \<open>6 * 2\<^sup>-\<^sup>1\<^sup>0\<^sup>9\<close>, not 0, and the
  result is \<open>-1\<close>.
\<close>

theorem constant_series_correlation: "calculateCorrelation six_tenths six_sevenths = Fin (- 1)"
proof -
  have n: "min (length six_tenths) (length six_sevenths) = 6"
    by (simp add: six_tenths_def six_sevenths_def)
  have sa: "slice_from six_tenths (- int 6) = six_tenths"
    and sb: "slice_from six_sevenths (- int 6) = six_sevenths"
    by (simp_all add: slice_from_def six_tenths_def six_sevenths_def)
  have ma: "ddiv (foldl (\<lambda>s v. dadd s (Fin v)) (Fin 0) six_tenths) (Fin (real 6)) =
      Fin (7205759403792793 / 72057594037927936)"
    by (simp add: six_tenths_def fl_eval)
  have mb: "ddiv (foldl (\<lambda>s v. dadd s (Fin v)) (Fin 0) six_sevenths) (Fin (real 6)) =
      Fin (6305039478318695 / 9007199254740992)"
    by (simp add: six_sevenths_def fl_eval)
  have loop: "foldl (corrStep six_tenths six_sevenths
        (Fin (7205759403792793 / 72057594037927936))
        (Fin (6305039478318695 / 9007199254740992)))
      (Fin 0, Fin 0, Fin 0) [0 ..< 6] =
      (Fin (- (6 / 2 ^ 109)), Fin (6 / 2 ^ 112), Fin (6 / 2 ^ 106))"
    by (simp add: six_tenths_def six_sevenths_def corrStep_def dsub_def fl_eval upt_rec)
  have root: "dsqrt (dmul (Fin (6 / 2 ^ 112)) (Fin (6 / 2 ^ 106))) = Fin (6 / 2 ^ 109)"
  proof -
    have product: "dmul (Fin (6 / 2 ^ 112)) (Fin (6 / 2 ^ 106)) = Fin ((6 / 2 ^ 109)\<^sup>2)"
      by (simp add: fl_eval power2_eq_square)
    have nonneg: "((6 / 2 ^ 109)\<^sup>2 :: real) < 0 \<longleftrightarrow> False"
      by simp
    have exact_root: "sqrt ((6 / 2 ^ 109)\<^sup>2) = 6 / (2::real) ^ 109"
      by (simp only: real_sqrt_abs) simp
    have representable: "fl (6 / 2 ^ 109) = Fin (6 / 2 ^ 109)"
      by (simp add: fl_eval)
    show ?thesis
      by (simp only: product dsqrt.simps nonneg if_False exact_root representable)
  qed
  have quotient: "ddiv (Fin (- (6 / 2 ^ 109))) (Fin (6 / 2 ^ 109)) = Fin (- 1)"
    by (simp add: fl_eval)
  show ?thesis
    unfolding calculateCorrelation_def Let_def n sa sb ma mb loop prod.case root quotient
    by simp
qed


section \<open>Treemap layout\<close>

lemma squarifyLoop_length:
  "length (squarifyLoop items i x y rw rh wt horizontal) = length items"
  by (induction items arbitrary: i x y rw rh wt horizontal) (simp_all add: Let_def)


text \<open>
  Sizes can also be negative. With three weights \<open>0.3\<close> and one of \<open>10\<^sup>-\<^sup>1\<^sup>7\<close> the total
  rounds to the sum of the first three; after three items the remaining width and the
  remaining weight are small negative numbers, and the last rectangle has a negative
  width and a negative height.
\<close>

lemma negative_sizes:
  "map (\<lambda>r. negative (r_w r) \<and> negative (r_h r)) (squarify small_last_items 900 500) =
     [False, False, False, True]"
  by (simp add: squarify_def small_last_items_def dle_def dsub_def infinity_def fl_eval)

end
